theory Spec2Isabelle
  imports Complex_Main "HOL-Library.AList"
begin

section \<open>Python values and the message codec\<close>

text \<open>
  The discovery module exchanges Python values through \<^verbatim>\<open>pack\<close> and \<^verbatim>\<open>unpack\<close>:
  \<^verbatim>\<open>
  def unpack(message):
      return json.loads(message.decode(config.ENCODING))
  def pack(message):
      return json.dumps(message).encode(config.ENCODING)
  \<close>
  The values that travel are the ones the standard \<^verbatim>\<open>json\<close> module serialises. Floats are
  idealised as reals (rounding and the non-finite floats are not modelled); a mapping is an
  association list with text keys, in insertion order.
\<close>

datatype py_error =
    TypeError | KeyError | ValueError | IndexError | AttributeError
  | NotImplementedError | UnicodeDecodeError | ZMQError | OSError

datatype pyval =
    PNone
  | PBool bool
  | PInt int
  | PFloat real
  | PStr string
  | PList "pyval list"
  | PTuple "pyval list"
  | PDict "(string \<times> pyval) list"

text \<open>
  A JSON document, as \<^verbatim>\<open>json.dumps\<close> writes it and \<^verbatim>\<open>json.loads\<close> reads it. The text layer
  of the library (rendering a document to characters and parsing it back) is not part of the
  module; a well-formed JSON text is identified with the document it denotes.
\<close>

datatype json =
    JNull
  | JBool bool
  | JInt int
  | JFloat real
  | JString string
  | JArray "json list"
  | JObject "(string \<times> json) list"

text \<open>
  The conversion table of \<^verbatim>\<open>json.dumps\<close>: lists and tuples both become arrays, a mapping an
  object.
\<close>

primrec json_dumps :: "pyval \<Rightarrow> json" where
  "json_dumps PNone = JNull"
| "json_dumps (PBool b) = JBool b"
| "json_dumps (PInt i) = JInt i"
| "json_dumps (PFloat r) = JFloat r"
| "json_dumps (PStr s) = JString s"
| "json_dumps (PList xs) = JArray (map json_dumps xs)"
| "json_dumps (PTuple xs) = JArray (map json_dumps xs)"
| "json_dumps (PDict kvs) = JObject (map (map_prod id json_dumps) kvs)"

text \<open>
  Building a \<^verbatim>\<open>dict\<close> from the members of an object, in order: a repeated key keeps its first
  position and takes the last value.
\<close>

definition dict_of :: "(string \<times> pyval) list \<Rightarrow> (string \<times> pyval) list" where
  "dict_of kvs = foldl (\<lambda>d kv. AList.update (fst kv) (snd kv) d) [] kvs"

text \<open>The conversion table of \<^verbatim>\<open>json.loads\<close>: an array becomes a list, never a tuple.\<close>

primrec json_loads :: "json \<Rightarrow> pyval" where
  "json_loads JNull = PNone"
| "json_loads (JBool b) = PBool b"
| "json_loads (JInt i) = PInt i"
| "json_loads (JFloat r) = PFloat r"
| "json_loads (JString s) = PStr s"
| "json_loads (JArray xs) = PList (map json_loads xs)"
| "json_loads (JObject kvs) = PDict (dict_of (map (map_prod id json_loads) kvs))"

text \<open>
  A message on a socket is a byte string. It either decodes under \<^verbatim>\<open>config.ENCODING\<close> to a
  well-formed JSON text, or decodes to text that is not JSON (\<^verbatim>\<open>json.loads\<close> raises
  \<^verbatim>\<open>ValueError\<close>), or does not decode at all (\<^verbatim>\<open>UnicodeDecodeError\<close>).
\<close>

datatype message = Json json | NotJson | NotText

definition pack :: "pyval \<Rightarrow> message" where
  "pack v = Json (json_dumps v)"

definition unpack :: "message \<Rightarrow> py_error + pyval" where
  "unpack m = (case m of
       Json j \<Rightarrow> Inr (json_loads j)
     | NotJson \<Rightarrow> Inl ValueError
     | NotText \<Rightarrow> Inl UnicodeDecodeError)"


section \<open>The beacon\<close>

text \<open>
  What a call does besides returning: it returns a value, raises, or (the polling loop of
  \<^verbatim>\<open>do_discover\<close>) is still running when the observed clock readings end.
\<close>

datatype 'a outcome = Returned 'a | Raised py_error | Running

datatype level = DEBUG | INFO | WARN | EXCEPTION

type_synonym log_entry = "level \<times> string \<times> pyval list"

text \<open>An endpoint of the discovered set is the tuple \<^verbatim>\<open>(service_ip, service_port)\<close>.\<close>

type_synonym endpoint = "string \<times> pyval"

type_synonym found_table = "pyval \<rightharpoonup> endpoint set"

text \<open>
  The two tables of a \<^verbatim>\<open>Beacon\<close> (\<^verbatim>\<open>_services_to_advertise\<close>, \<^verbatim>\<open>_services_found\<close>), each a
  \<^verbatim>\<open>dict\<close> of \<^verbatim>\<open>set\<close>s, and the calls made on the logger. Keys and members are compared
  structurally; Python's \<^verbatim>\<open>==\<close> additionally identifies \<^verbatim>\<open>True\<close>, \<^verbatim>\<open>1\<close> and \<^verbatim>\<open>1.0\<close>, which
  matters only for a table that mixes them.
\<close>

record beacon =
  services_to_advertise :: "pyval \<rightharpoonup> pyval set"
  services_found :: found_table
  logged :: "log_entry list"

definition logger :: "level \<Rightarrow> string \<Rightarrow> pyval list \<Rightarrow> beacon \<Rightarrow> beacon" where
  "logger lvl fmt args s = s\<lparr>logged := logged s @ [(lvl, fmt, args)]\<rparr>"

text \<open>
  \<^verbatim>\<open>Beacon.__init__\<close> creates the empty tables and binds the UDP socket to port 9999 and the
  reply socket to port 9998; either bind may raise, which the argument decides.
\<close>

definition Beacon_init :: "py_error option \<Rightarrow> py_error + beacon" where
  "Beacon_init bind_failure = (case bind_failure of
       Some e \<Rightarrow> Inl e
     | None \<Rightarrow> Inr \<lparr>services_to_advertise = Map.empty, services_found = Map.empty, logged = []\<rparr>)"

text \<open>Lists and mappings cannot be dictionary keys or set members: hashing them raises.\<close>

fun hashable :: "pyval \<Rightarrow> bool" where
  "hashable (PList xs) = False"
| "hashable (PDict kvs) = False"
| "hashable (PTuple xs) = list_all hashable xs"
| "hashable v = True"

text \<open>
  \<^verbatim>\<open>
  def do_advertise(self, name, port, ip=None):
      logger.debug("Advertise %s on %s", name, port)
      with self._lock:
          self._services_to_advertise.setdefault(name, set()).add(port)
      return name + "!!"
  \<close>
  \<^verbatim>\<open>setdefault\<close> stores the empty bucket before \<^verbatim>\<open>add\<close> hashes the port, and the table is
  already updated when \<^verbatim>\<open>name + "!!"\<close> is evaluated.
\<close>

definition do_advertise :: "beacon \<Rightarrow> pyval \<Rightarrow> pyval \<Rightarrow> pyval \<Rightarrow> beacon \<times> pyval outcome" where
  "do_advertise s name port ip =
    (let s1 = logger DEBUG ''Advertise %s on %s'' [name, port] s in
     if \<not> hashable name then (s1, Raised TypeError)
     else
       let bucket = (case services_to_advertise s1 name of None \<Rightarrow> {} | Some ports \<Rightarrow> ports);
           s2 = s1\<lparr>services_to_advertise := (services_to_advertise s1)(name \<mapsto> bucket)\<rparr>
       in if \<not> hashable port then (s2, Raised TypeError)
          else
            let s3 = s2\<lparr>services_to_advertise :=
                         (services_to_advertise s2)(name \<mapsto> insert port bucket)\<rparr>
            in (case name of
                  PStr n \<Rightarrow> (s3, Returned (PStr (n @ ''!!'')))
                | _ \<Rightarrow> (s3, Raised TypeError)))"

text \<open>
  \<^verbatim>\<open>
  def do_unadvertise(self, name, port, ip=None):
      logger.debug("Unadvertise %s on %s", name, port)
      with self._lock:
          ports = self._services_to_advertise.get(name, set())
      if not ports:
          logger.warn("Not currently advertising %s on %s", name, port)
          return
      with self._lock:
          ports.remove(port)
          if not ports:
              del self._services_to_advertise[name]
  \<close>
  \<^verbatim>\<open>ports\<close> is the bucket stored in the table, so \<^verbatim>\<open>remove\<close> changes the table;
  \<^verbatim>\<open>set.remove\<close> raises \<^verbatim>\<open>KeyError\<close> for a member that is not there.
\<close>

definition do_unadvertise :: "beacon \<Rightarrow> pyval \<Rightarrow> pyval \<Rightarrow> pyval \<Rightarrow> beacon \<times> pyval outcome" where
  "do_unadvertise s name port ip =
    (let s1 = logger DEBUG ''Unadvertise %s on %s'' [name, port] s in
     if \<not> hashable name then (s1, Raised TypeError)
     else
       let ports = (case services_to_advertise s1 name of None \<Rightarrow> {} | Some ps \<Rightarrow> ps) in
       if ports = {} then
         (logger WARN ''Not currently advertising %s on %s'' [name, port] s1, Returned PNone)
       else if \<not> hashable port then (s1, Raised TypeError)
       else if port \<notin> ports then (s1, Raised KeyError)
       else
         let ports' = ports - {port} in
         if ports' = {} then
           (s1\<lparr>services_to_advertise := (services_to_advertise s1)(name := None)\<rparr>, Returned PNone)
         else
           (s1\<lparr>services_to_advertise := (services_to_advertise s1)(name \<mapsto> ports')\<rparr>,
            Returned PNone))"

subsection \<open>Discovery\<close>

text \<open>
  What \<^verbatim>\<open>do_discover\<close> reads from outside: the clock when the deadline is computed, the
  clock readings of the polling loop, the order in which \<^verbatim>\<open>list(discovered)\<close> enumerates a
  set, and the index \<^verbatim>\<open>random.choice\<close> draws for a sequence of a given length.
\<close>

record environment =
  clock0 :: real
  clock :: "real list"
  set_order :: "endpoint set \<Rightarrow> endpoint list"
  randbelow :: "nat \<Rightarrow> nat"

text \<open>\<^verbatim>\<open>time.time() + wait_for_secs\<close> needs a number.\<close>

definition seconds :: "pyval \<Rightarrow> py_error + real" where
  "seconds w = (case w of
       PInt i \<Rightarrow> Inr (of_int i)
     | PFloat r \<Rightarrow> Inr r
     | PBool b \<Rightarrow> Inr (if b then 1 else 0)
     | _ \<Rightarrow> Inl TypeError)"

text \<open>
  \<^verbatim>\<open>
  while True:
      with self._lock:
          discovered = self._services_found.get(name)
          if discovered:
              break
      if time.time() > t1:
          logger.warn("%s not discovered after %s secs", name, wait_for_secs)
          return None
  \<close>
  The table is shared with the other threads, so every iteration is given the table as its
  lookup finds it, together with the clock reading that follows a miss. The last argument
  counts the lookups made so far. The loop yields the bucket it broke out with, or
  \<^verbatim>\<open>None\<close> when the deadline has passed; \<open>Running\<close> when the observations end first.
\<close>

fun discover_loop ::
  "pyval \<Rightarrow> real \<Rightarrow> (found_table \<times> real) list \<Rightarrow> nat \<Rightarrow> (endpoint set option \<times> nat) outcome" where
  "discover_loop name t1 [] n = Running"
| "discover_loop name t1 ((found, now) # rest) n =
    (if \<not> hashable name then Raised TypeError
     else
       let discovered = found name in
       if discovered \<noteq> None \<and> discovered \<noteq> Some {} then Returned (discovered, Suc n)
       else if now > t1 then Returned (None, Suc n)
       else discover_loop name t1 rest (Suc n))"

text \<open>\<^verbatim>\<open>random.choice(seq)\<close> is \<^verbatim>\<open>seq[randbelow(len(seq))]\<close>, and raises on an empty sequence.\<close>

definition random_choice :: "(nat \<Rightarrow> nat) \<Rightarrow> 'a list \<Rightarrow> py_error + 'a" where
  "random_choice rb xs =
    (if xs = [] then Inl IndexError
     else if rb (length xs) < length xs then Inr (xs ! rb (length xs))
     else Inl IndexError)"

text \<open>
  \<^verbatim>\<open>
  def do_discover(self, name, wait_for_secs):
      logger.debug("Discover %s waiting for %s secs", name, wait_for_secs)
      t1 = time.time() + wait_for_secs
      while True: ...
      services = list(discovered)
      return random.choice(services)
  \<close>
  The value returned is a member of the bucket as it is stored: the tuple
  \<^verbatim>\<open>(service_ip, service_port)\<close>.
\<close>

definition do_discover ::
  "environment \<Rightarrow> (found_table \<times> real) list \<Rightarrow> beacon \<Rightarrow> pyval \<Rightarrow> pyval \<Rightarrow> beacon \<times> pyval outcome" where
  "do_discover env obs s name wait_for_secs =
    (let s1 = logger DEBUG ''Discover %s waiting for %s secs'' [name, wait_for_secs] s in
     case seconds wait_for_secs of
       Inl e \<Rightarrow> (s1, Raised e)
     | Inr w \<Rightarrow>
        (case discover_loop name (clock0 env + w) obs 0 of
           Running \<Rightarrow> (s1, Running)
         | Raised e \<Rightarrow> (s1, Raised e)
         | Returned (None, n) \<Rightarrow>
             (logger WARN ''%s not discovered after %s secs'' [name, wait_for_secs] s1,
              Returned PNone)
         | Returned (Some discovered, n) \<Rightarrow>
             (case random_choice (randbelow env) (set_order env discovered) of
                Inl e \<Rightarrow> (s1, Raised e)
              | Inr (service_ip, service_port) \<Rightarrow>
                  (s1, Returned (PTuple [PStr service_ip, service_port])))))"

subsection \<open>The control channel\<close>

text \<open>\<^verbatim>\<open>str.lower\<close>, as far as it decides a comparison with an ASCII name.\<close>

definition lower_char :: "char \<Rightarrow> char" where
  "lower_char c =
    (case map_of (zip ''ABCDEFGHIJKLMNOPQRSTUVWXYZ'' ''abcdefghijklmnopqrstuvwxyz'') c of
       Some d \<Rightarrow> d
     | None \<Rightarrow> c)"

definition lower :: "string \<Rightarrow> string" where
  "lower s = map lower_char s"

text \<open>What the socket's \<^verbatim>\<open>recv\<close> does: a message, \<^verbatim>\<open>EAGAIN\<close>, or another \<^verbatim>\<open>ZMQError\<close>.\<close>

datatype recv = Received message | Again | RecvError

text \<open>
  \<^verbatim>\<open>action, params = segments[0], segments[1:]\<close>, with \<^verbatim>\<open>params\<close> as the items that
  \<^verbatim>\<open>function(*params)\<close> spreads. A text is indexed and sliced by character; a mapping has
  no key \<^verbatim>\<open>0\<close>; the other values cannot be subscripted.
\<close>

fun action_and_params :: "pyval \<Rightarrow> py_error + (pyval \<times> pyval list)" where
  "action_and_params (PList []) = Inl IndexError"
| "action_and_params (PList (x # xs)) = Inr (x, xs)"
| "action_and_params (PTuple []) = Inl IndexError"
| "action_and_params (PTuple (x # xs)) = Inr (x, xs)"
| "action_and_params (PStr []) = Inl IndexError"
| "action_and_params (PStr (c # cs)) = Inr (PStr [c], map (\<lambda>d. PStr [d]) cs)"
| "action_and_params (PDict kvs) = Inl KeyError"
| "action_and_params v = Inl TypeError"

text \<open>The methods of \<^verbatim>\<open>Beacon\<close> whose name starts with \<^verbatim>\<open>do_\<close>, as \<^verbatim>\<open>getattr\<close> finds them.\<close>

datatype handler = Do_advertise | Do_unadvertise | Do_discover

definition getattr_beacon :: "string \<Rightarrow> handler option" where
  "getattr_beacon attr =
    (if attr = ''do_advertise'' then Some Do_advertise
     else if attr = ''do_unadvertise'' then Some Do_unadvertise
     else if attr = ''do_discover'' then Some Do_discover
     else None)"

text \<open>
  \<^verbatim>\<open>function(*params)\<close>: a call with the wrong number of arguments raises \<^verbatim>\<open>TypeError\<close>;
  \<^verbatim>\<open>ip\<close> defaults to \<^verbatim>\<open>None\<close>. While the handler runs on the worker thread nothing else
  writes the discovered set, so every lookup of \<^verbatim>\<open>do_discover\<close> sees the table of the call.
\<close>

fun call_handler :: "environment \<Rightarrow> beacon \<Rightarrow> handler \<Rightarrow> pyval list \<Rightarrow> beacon \<times> pyval outcome" where
  "call_handler env s Do_advertise [name, port] = do_advertise s name port PNone"
| "call_handler env s Do_advertise [name, port, ip] = do_advertise s name port ip"
| "call_handler env s Do_unadvertise [name, port] = do_unadvertise s name port PNone"
| "call_handler env s Do_unadvertise [name, port, ip] = do_unadvertise s name port ip"
| "call_handler env s Do_discover [name, wait_for_secs] =
     do_discover env (map (\<lambda>now. (services_found s, now)) (clock env)) s name wait_for_secs"
| "call_handler env s h params = (s, Raised TypeError)"

text \<open>
  \<^verbatim>\<open>result = function(*params); self.rpc.send(pack(result))\<close>: the reply is sent only when
  the handler has returned.
\<close>

definition send_result :: "beacon \<times> pyval outcome \<Rightarrow> beacon \<times> message option outcome" where
  "send_result called =
    (case called of
       (s, Returned result) \<Rightarrow> (s, Returned (Some (pack result)))
     | (s, Raised e) \<Rightarrow> (s, Raised e)
     | (s, Running) \<Rightarrow> (s, Running))"

text \<open>
  \<^verbatim>\<open>
  def check_for_commands(self, wait=True):
      try:
          message = self.rpc.recv(0 if wait else zmq.NOBLOCK)
      except zmq.ZMQError as exc:
          if exc.errno == zmq.EAGAIN:
              return
          else:
              raise
      logger.debug("Received command %s", message)
      segments = unpack(message)
      action, params = segments[0], segments[1:]
      function = getattr(self, "do_" + action.lower(), None)
      if not function:
          raise NotImplementedError
      else:
          logger.debug("Calling %s with %s", function, params)
          result = function(*params)
          self.rpc.send(pack(result))
  \<close>
  The result is the reply sent on the socket, if any.
\<close>

definition check_for_commands :: "environment \<Rightarrow> beacon \<Rightarrow> recv \<Rightarrow> beacon \<times> message option outcome" where
  "check_for_commands env s r =
    (case r of
       Again \<Rightarrow> (s, Returned None)
     | RecvError \<Rightarrow> (s, Raised ZMQError)
     | Received message \<Rightarrow>
        (let s1 = logger DEBUG ''Received command %s'' [] s in
         case unpack message of
           Inl e \<Rightarrow> (s1, Raised e)
         | Inr segments \<Rightarrow>
            (case action_and_params segments of
               Inl e \<Rightarrow> (s1, Raised e)
             | Inr (action, params) \<Rightarrow>
                (case action of
                   PStr a \<Rightarrow>
                    (case getattr_beacon (''do_'' @ lower a) of
                       None \<Rightarrow> (s1, Raised NotImplementedError)
                     | Some function \<Rightarrow>
                        (let s2 = logger DEBUG ''Calling %s with %s''
                                    [PStr (''do_'' @ lower a), PList params] s1 in
                         send_result (call_handler env s2 function params)))
                 | _ \<Rightarrow> (s1, Raised AttributeError)))))"

subsection \<open>Broadcast adverts\<close>

text \<open>
  \<^verbatim>\<open>service_name, service_port = unpack(message)\<close>: the value must be iterable with exactly
  two items (a text yields its characters, a mapping its keys).
\<close>

fun unpack_two :: "pyval \<Rightarrow> py_error + (pyval \<times> pyval)" where
  "unpack_two (PList [a, b]) = Inr (a, b)"
| "unpack_two (PList xs) = Inl ValueError"
| "unpack_two (PTuple [a, b]) = Inr (a, b)"
| "unpack_two (PTuple xs) = Inl ValueError"
| "unpack_two (PStr [c, d]) = Inr (PStr [c], PStr [d])"
| "unpack_two (PStr cs) = Inl ValueError"
| "unpack_two (PDict [kv, kv']) = Inr (PStr (fst kv), PStr (fst kv'))"
| "unpack_two (PDict kvs) = Inl ValueError"
| "unpack_two v = Inl TypeError"

text \<open>
  \<^verbatim>\<open>
  def check_for_adverts(self):
      events = dict(self.poller.poll(1000 * self.finder_timeout_secs))
      if self.socket_fd not in events:
          return
      message, source = self.socket.recvfrom(self.beacon_message_size)
      service_name, service_port = unpack(message)
      service_ip, _  = source
      logger.debug("Advert received from %s for %s on %s", service_ip, service_name, service_port)
      with self._lock:
          self._services_found.setdefault(service_name, set()).add((service_ip, service_port))
  \<close>
  The argument is what the poll and \<^verbatim>\<open>recvfrom\<close> give: nothing, or the message (the first
  256 bytes of the datagram) and the address it came from. There is no handler around
  \<^verbatim>\<open>unpack\<close>.
\<close>

definition check_for_adverts :: "beacon \<Rightarrow> (message \<times> string \<times> nat) option \<Rightarrow> beacon \<times> unit outcome" where
  "check_for_adverts s polled =
    (case polled of
       None \<Rightarrow> (s, Returned ())
     | Some (message, service_ip, source_port) \<Rightarrow>
        (case unpack message of
           Inl e \<Rightarrow> (s, Raised e)
         | Inr v \<Rightarrow>
            (case unpack_two v of
               Inl e \<Rightarrow> (s, Raised e)
             | Inr (service_name, service_port) \<Rightarrow>
                (let s1 = logger DEBUG ''Advert received from %s for %s on %s''
                            [PStr service_ip, service_name, service_port] s in
                 if \<not> hashable service_name then (s1, Raised TypeError)
                 else
                   let bucket = (case services_found s1 service_name of
                                   None \<Rightarrow> {} | Some found \<Rightarrow> found);
                       s2 = s1\<lparr>services_found := (services_found s1)(service_name \<mapsto> bucket)\<rparr>
                   in if \<not> hashable service_port then (s2, Raised TypeError)
                      else
                        (s2\<lparr>services_found := (services_found s2)
                              (service_name \<mapsto> insert (service_ip, service_port) bucket)\<rparr>,
                         Returned ())))))"

text \<open>
  \<^verbatim>\<open>
  def advertise_names(self):
      with self._lock:
          for service_name, service_ports in self._services_to_advertise.items():
              for service_port in service_ports:
                  message = pack([service_name, service_port])
                  self.socket.sendto(message, 0, ("255.255.255.255", self.beacon_port))
  \<close>
  The datagrams broadcast in one round, one for every name and port of the table.
\<close>

definition advertise_names :: "beacon \<Rightarrow> message set" where
  "advertise_names s =
    {pack (PList [service_name, service_port]) | service_name service_port.
       \<exists>service_ports. services_to_advertise s service_name = Some service_ports
          \<and> service_port \<in> service_ports}"

section \<open>The module interface\<close>

text \<open>
  The module global \<^verbatim>\<open>_beacon\<close> is \<^verbatim>\<open>None\<close>, the process's own \<^verbatim>\<open>Beacon\<close>, or the marker
  \<^verbatim>\<open>_remote_beacon\<close>.
\<close>

datatype beacon_global = Unset | Local | Remote

text \<open>
  The process and the host it runs on: the global, the beacon (if any) that owns ports 9998
  and 9999 of the host and answers on \<^verbatim>\<open>tcp://localhost:9998\<close>, how often \<^verbatim>\<open>Beacon()\<close> was
  attempted and how often a worker thread was started, the module's own log lines and the
  calls registered with \<^verbatim>\<open>atexit\<close>.
\<close>

record world =
  beacon_var :: beacon_global
  server :: "beacon option"
  constructions :: nat
  workers_started :: nat
  module_log :: "log_entry list"
  exit_hooks :: "pyval list list"

text \<open>
  \<^verbatim>\<open>
  def start_beacon():
      global _beacon
      if _beacon is None:
          logger.debug("About to start beacon")
          try:
              _beacon = Beacon()
          except:
              logger.exception("Unable to start beacon")
              _beacon = _remote_beacon
          else:
              _beacon.start()
  \<close>
  A beacon that binds its ports is from then on the one that serves them. Starting the
  thread is taken to succeed.
\<close>

definition start_beacon :: "py_error option \<Rightarrow> world \<Rightarrow> world" where
  "start_beacon bind_failure w =
    (if beacon_var w = Unset then
       (let w1 = w\<lparr>module_log := module_log w @ [(DEBUG, ''About to start beacon'', [])],
                   constructions := constructions w + 1\<rparr> in
        case Beacon_init bind_failure of
          Inl e \<Rightarrow> w1\<lparr>module_log := module_log w1 @ [(EXCEPTION, ''Unable to start beacon'', [])],
                      beacon_var := Remote\<rparr>
        | Inr b \<Rightarrow> w1\<lparr>beacon_var := Local, server := Some b,
                      workers_started := workers_started w1 + 1\<rparr>)
     else w)"

text \<open>
  \<^verbatim>\<open>
  def _rpc(action, *args):
      with context.socket(zmq.REQ) as socket:
          socket.connect("tcp://localhost:%s" % Beacon.rpc_port)
          socket.send(pack([action] + list(args)))
          return unpack(socket.recv())
  \<close>
  The request is handled by \<^verbatim>\<open>check_for_commands\<close> of the serving beacon. When that raises,
  the exception leaves \<^verbatim>\<open>run\<close> and ends the worker; no reply is sent and \<^verbatim>\<open>recv\<close> does not
  return. The same holds when nothing serves the port.
\<close>

definition rpc :: "environment \<Rightarrow> world \<Rightarrow> string \<Rightarrow> pyval list \<Rightarrow> world \<times> pyval outcome" where
  "rpc env w action args =
    (case server w of
       None \<Rightarrow> (w, Running)
     | Some b \<Rightarrow>
        (case check_for_commands env b (Received (pack (PList (PStr action # args)))) of
           (b', Returned (Some reply)) \<Rightarrow>
             (w\<lparr>server := Some b'\<rparr>,
              case unpack reply of Inl e \<Rightarrow> Raised e | Inr v \<Rightarrow> Returned v)
         | (b', Returned None) \<Rightarrow> (w\<lparr>server := Some b'\<rparr>, Running)
         | (b', Raised e) \<Rightarrow> (w\<lparr>server := None\<rparr>, Running)
         | (b', Running) \<Rightarrow> (w\<lparr>server := Some b'\<rparr>, Running)))"

text \<open>
  \<^verbatim>\<open>
  def split_address(address):
      if ":" in address:
          ip, _, port = address.partition(":")
      else:
          ip, port = None, address
      return ip, port
  \<close>
\<close>

definition split_address :: "string \<Rightarrow> string option \<times> string" where
  "split_address address =
    (if CHR '':'' \<in> set address then
       (Some (takeWhile (\<lambda>c. c \<noteq> CHR '':'') address),
        tl (dropWhile (\<lambda>c. c \<noteq> CHR '':'') address))
     else (None, address))"

text \<open>
  \<^verbatim>\<open>
  def advertise(name, address):
      start_beacon()
      ip, port = split_address(str(address))
      result = _rpc("advertise", name, port, ip)
      atexit.register(unadvertise, name, port, ip)
      return result
  \<close>
  The builtin \<^verbatim>\<open>str\<close> is an argument of the model: whatever the address is, \<^verbatim>\<open>str\<close> gives a
  text.
\<close>

definition advertise ::
  "environment \<Rightarrow> py_error option \<Rightarrow> ('a \<Rightarrow> string) \<Rightarrow> world \<Rightarrow> pyval \<Rightarrow> 'a \<Rightarrow> world \<times> pyval outcome" where
  "advertise env bind_failure str w name address =
    (let w1 = start_beacon bind_failure w;
         ip = (case fst (split_address (str address)) of None \<Rightarrow> PNone | Some i \<Rightarrow> PStr i);
         port = PStr (snd (split_address (str address)))
     in case rpc env w1 ''advertise'' [name, port, ip] of
          (w2, Returned result) \<Rightarrow>
            (w2\<lparr>exit_hooks := exit_hooks w2 @ [[name, port, ip]]\<rparr>, Returned result)
        | (w2, Raised e) \<Rightarrow> (w2, Raised e)
        | (w2, Running) \<Rightarrow> (w2, Running))"

text \<open>
  \<^verbatim>\<open>
  def discover(name, wait_for_secs=-1):
      start_beacon()
      return _rpc("discover", name, wait_for_secs)
  \<close>
\<close>

definition discover ::
  "environment \<Rightarrow> py_error option \<Rightarrow> world \<Rightarrow> pyval \<Rightarrow> pyval \<Rightarrow> world \<times> pyval outcome" where
  "discover env bind_failure w name wait_for_secs =
    rpc env (start_beacon bind_failure w) ''discover'' [name, wait_for_secs]"

section \<open>Sequences of advertise and unadvertise\<close>

datatype operation = Advertise pyval pyval pyval | Unadvertise pyval pyval pyval




definition empty_beacon :: beacon where
  "empty_beacon = \<lparr>services_to_advertise = Map.empty, services_found = Map.empty, logged = []\<rparr>"



text \<open>
  An environment for the examples: the deadline is computed at time 100, the clock is read
  once a second afterwards, a set with one endpoint is listed as it is and the random index
  is the first.
\<close>

definition quiet_environment :: environment where
  "quiet_environment = \<lparr>clock0 = 100, clock = [101, 102, 103, 104, 105, 106],
      set_order = (\<lambda>found. [(''127.0.0.1'', PStr ''9005'')]), randbelow = (\<lambda>n. 0)\<rparr>"


text \<open>A beacon that advertises \<^verbatim>\<open>"svc"\<close> on port \<^verbatim>\<open>"9001"\<close> and nothing else.\<close>

definition advertising_9001 :: beacon where
  "advertising_9001 = fst (do_advertise empty_beacon (PStr ''svc'') (PStr ''9001'') PNone)"

text \<open>A process that has not touched the beacon yet, on a host where nothing serves the ports.\<close>

definition fresh_world :: world where
  "fresh_world = \<lparr>beacon_var = Unset, server = None, constructions = 0, workers_started = 0,
                   module_log = [], exit_hooks = []\<rparr>"

section \<open>Properties of the codec\<close>







section \<open>Properties of the module interface\<close>

lemma start_beacon_set: "beacon_var w \<noteq> Unset \<Longrightarrow> start_beacon f w = w"
  by (simp add: start_beacon_def)

lemma start_beacon_not_Unset: "beacon_var (start_beacon f w) \<noteq> Unset"
  by (cases f) (auto simp: start_beacon_def Beacon_init_def Let_def)

lemma later_calls: "beacon_var w \<noteq> Unset \<Longrightarrow> fold start_beacon fs w = w"
  by (induction fs) (simp_all add: start_beacon_set)

text \<open>
  C8: the first call of \<^verbatim>\<open>start_beacon\<close> attempts the construction once; it either makes the
  beacon local and starts its worker, or, when the construction raises, marks the beacon
  remote. Whatever later calls would meet, each of them leaves the whole state as it is, so
  nothing is constructed again, and two calls in a row equal one.
\<close>

theorem start_beacon_idempotent:
  assumes "beacon_var w = Unset"
  shows "(f1 = None \<longrightarrow> beacon_var (start_beacon f1 w) = Local
            \<and> workers_started (start_beacon f1 w) = workers_started w + 1)
       \<and> (f1 \<noteq> None \<longrightarrow> beacon_var (start_beacon f1 w) = Remote
            \<and> workers_started (start_beacon f1 w) = workers_started w
            \<and> server (start_beacon f1 w) = server w)
       \<and> constructions (start_beacon f1 w) = constructions w + 1
       \<and> fold start_beacon fs (start_beacon f1 w) = start_beacon f1 w
       \<and> start_beacon f2 (start_beacon f1 w) = start_beacon f1 w"
proof -
  have a: "fold start_beacon fs (start_beacon f1 w) = start_beacon f1 w"
    by (rule later_calls) (rule start_beacon_not_Unset)
  have b: "start_beacon f2 (start_beacon f1 w) = start_beacon f1 w"
    by (rule start_beacon_set) (rule start_beacon_not_Unset)
  show ?thesis using assms a b
    by (cases f1) (simp_all add: start_beacon_def Beacon_init_def Let_def)
qed

theorem start_beacon_idempotent_witness:
  "beacon_var fresh_world = Unset
   \<and> beacon_var (start_beacon (Some OSError) fresh_world) = Remote
   \<and> constructions (start_beacon None (start_beacon (Some OSError) fresh_world)) = 1
   \<and> fold start_beacon [None, None] (start_beacon (Some OSError) fresh_world)
       = start_beacon (Some OSError) fresh_world
   \<and> beacon_var (start_beacon None fresh_world) = Local
   \<and> workers_started (start_beacon (Some OSError) (start_beacon None fresh_world)) = 1"
proof -
  have u: "beacon_var fresh_world = Unset" by (simp add: fresh_world_def)
  show ?thesis
    using u start_beacon_idempotent[OF u, of "Some OSError" "[None, None]" None]
          start_beacon_idempotent[OF u, of None "[]" "Some OSError"]
    by (simp add: fresh_world_def)
qed

section \<open>Properties of the beacon's tables\<close>

lemma advertising_9001_table:
  "services_to_advertise advertising_9001 = [PStr ''svc'' \<mapsto> {PStr ''9001''}]"
  by (simp add: advertising_9001_def do_advertise_def empty_beacon_def logger_def Let_def)

lemma do_unadvertise_not_advertised:
  "hashable name \<Longrightarrow> services_to_advertise s name = None \<Longrightarrow>
   do_unadvertise s name port ip =
     (logger WARN ''Not currently advertising %s on %s'' [name, port]
        (logger DEBUG ''Unadvertise %s on %s'' [name, port] s), Returned PNone)"
  by (simp add: do_unadvertise_def logger_def Let_def)

lemma do_unadvertise_present:
  "hashable name \<Longrightarrow> hashable port \<Longrightarrow> services_to_advertise s name = Some ports \<Longrightarrow>
   port \<in> ports \<Longrightarrow>
   snd (do_unadvertise s name port ip) = Returned PNone \<and>
   services_to_advertise (fst (do_unadvertise s name port ip)) =
     (if ports - {port} = {} then (services_to_advertise s)(name := None)
      else (services_to_advertise s)(name \<mapsto> ports - {port}))"
  by (auto simp add: do_unadvertise_def logger_def Let_def)

text \<open>
  C2 at the input where the code leaves it: the beacon advertises \<^verbatim>\<open>"svc"\<close> on \<^verbatim>\<open>"9001"\<close>
  only, and \<^verbatim>\<open>"svc"\<close> on \<^verbatim>\<open>"9002"\<close> is unadvertised. The pair is not in the advertisement set,
  but the bucket of the name is not empty, so the warning branch is not taken and
  \<^verbatim>\<open>ports.remove(port)\<close> raises \<^verbatim>\<open>KeyError\<close>: no warning is recorded and nothing is returned.
\<close>

theorem do_unadvertise_absent_port_raises:
  "services_to_advertise advertising_9001 (PStr ''svc'') = Some {PStr ''9001''}
   \<and> snd (do_unadvertise advertising_9001 (PStr ''svc'') (PStr ''9002'') PNone) = Raised KeyError
   \<and> (WARN, ''Not currently advertising %s on %s'', [PStr ''svc'', PStr ''9002''])
       \<notin> set (logged (fst (do_unadvertise advertising_9001 (PStr ''svc'') (PStr ''9002'') PNone)))"
  by (simp add: advertising_9001_table do_unadvertise_def logger_def Let_def)
     (simp add: advertising_9001_def do_advertise_def empty_beacon_def logger_def Let_def)

section \<open>Properties of the receive step\<close>

text \<open>
  C3, as the code has it: a datagram that is not JSON makes \<^verbatim>\<open>check_for_adverts\<close> raise the
  \<^verbatim>\<open>ValueError\<close> of the decoder.
\<close>

theorem check_for_adverts_decode_counterexample:
  "check_for_adverts empty_beacon (Some (NotJson, ''10.0.0.7'', 9999))
     = (empty_beacon, Raised ValueError)"
  by (simp add: check_for_adverts_def unpack_def)

text \<open>
  C3, amended: when the payload of an incoming datagram, as received (its first 256 bytes),
  fails to decode, \<^verbatim>\<open>check_for_adverts\<close> raises the decoder's error: the failure leaves the
  receive step, nothing is logged, and the discovered set, like the rest of the beacon, is
  unchanged.
\<close>

theorem check_for_adverts_decode_failure:
  "unpack message = Inl e \<Longrightarrow>
   check_for_adverts s (Some (message, service_ip, source_port)) = (s, Raised e)"
  by (simp add: check_for_adverts_def)

theorem check_for_adverts_decode_failure_witness:
  "unpack NotText = Inl UnicodeDecodeError
   \<and> check_for_adverts advertising_9001 (Some (NotText, ''10.0.0.7'', 9999))
       = (advertising_9001, Raised UnicodeDecodeError)"
  using check_for_adverts_decode_failure
          [of NotText UnicodeDecodeError advertising_9001 "''10.0.0.7''" 9999]
  by (simp add: unpack_def)

section \<open>The invariant of the advertisement set\<close>






lemma do_advertise_twice:
  "services_to_advertise (fst (do_advertise (fst (do_advertise s name port ip)) name port ip'))
   = services_to_advertise (fst (do_advertise s name port ip))"
  by (cases name) (auto simp: do_advertise_def logger_def Let_def)





text \<open>
  The hypothesis on the port is needed: \<^verbatim>\<open>setdefault\<close> has stored the empty bucket of a new
  name when \<^verbatim>\<open>add\<close> fails to hash a list or a mapping.
\<close>

lemma do_advertise_unhashable_port:
  "hashable name \<Longrightarrow> \<not> hashable port \<Longrightarrow> services_to_advertise s name = None \<Longrightarrow>
   snd (do_advertise s name port ip) = Raised TypeError
   \<and> services_to_advertise (fst (do_advertise s name port ip)) name = Some {}"
  by (simp add: do_advertise_def logger_def Let_def)

section \<open>Properties of the control channel\<close>

lemma getattr_do:
  "getattr_beacon (CHR ''d'' # CHR ''o'' # CHR ''_'' # a) =
    (if a = ''advertise'' then Some Do_advertise
     else if a = ''unadvertise'' then Some Do_unadvertise
     else if a = ''discover'' then Some Do_discover
     else None)"
  by (simp add: getattr_beacon_def)

lemma lower_example: "lower ''AdVerTise'' = ''advertise''"
  by (simp add: lower_def lower_char_def)

text \<open>
  C10: a frame \<^verbatim>\<open>[verb, args...]\<close> whose verb is none of the three, whatever its case, makes
  \<^verbatim>\<open>check_for_commands\<close> raise \<^verbatim>\<open>NotImplementedError\<close> before anything is sent: there is no
  reply, and the advertisement set and the discovered set are as they were.
\<close>

theorem unknown_verb_no_reply:
  assumes "unpack message = Inr (PList (PStr verb # args))"
    and "lower verb \<noteq> ''advertise''" and "lower verb \<noteq> ''unadvertise''"
    and "lower verb \<noteq> ''discover''"
  shows "snd (check_for_commands env s (Received message)) = Raised NotImplementedError
       \<and> (\<forall>reply. snd (check_for_commands env s (Received message)) \<noteq> Returned (Some reply))
       \<and> services_to_advertise (fst (check_for_commands env s (Received message)))
           = services_to_advertise s
       \<and> services_found (fst (check_for_commands env s (Received message))) = services_found s"
  using assms by (simp add: check_for_commands_def getattr_do logger_def Let_def)

theorem unknown_verb_no_reply_witness:
  "unpack (pack (PList [PStr ''Forget'', PStr ''svc''])) = Inr (PList [PStr ''Forget'', PStr ''svc''])
   \<and> lower ''Forget'' = ''forget''
   \<and> snd (check_for_commands quiet_environment advertising_9001
            (Received (pack (PList [PStr ''Forget'', PStr ''svc''])))) = Raised NotImplementedError
   \<and> services_to_advertise (fst (check_for_commands quiet_environment advertising_9001
            (Received (pack (PList [PStr ''Forget'', PStr ''svc''])))))
       = services_to_advertise advertising_9001"
proof -
  have u: "unpack (pack (PList [PStr ''Forget'', PStr ''svc''])) = Inr (PList [PStr ''Forget'', PStr ''svc''])"
    by (simp add: pack_def unpack_def)
  have l: "lower ''Forget'' = ''forget''" by (simp add: lower_def lower_char_def)
  show ?thesis
    using u l unknown_verb_no_reply[OF u, of quiet_environment advertising_9001]
    by simp
qed

text \<open>
  C7: for a frame \<^verbatim>\<open>[verb, args...]\<close> the handler is chosen by the lowercased verb alone.
  When that is \<^verbatim>\<open>advertise\<close>, \<^verbatim>\<open>unadvertise\<close> or \<^verbatim>\<open>discover\<close> the matching handler is called
  with the remaining arguments and its result is sent back encoded; for every other verb
  \<^verbatim>\<open>check_for_commands\<close> raises \<^verbatim>\<open>NotImplementedError\<close>.
\<close>

theorem dispatch_by_lowercased_verb:
  assumes "unpack message = Inr (PList (PStr verb # args))"
  shows "(lower verb = ''advertise'' \<longrightarrow>
            check_for_commands env s (Received message) =
              send_result (call_handler env
                (logger DEBUG ''Calling %s with %s'' [PStr ''do_advertise'', PList args]
                   (logger DEBUG ''Received command %s'' [] s)) Do_advertise args))
       \<and> (lower verb = ''unadvertise'' \<longrightarrow>
            check_for_commands env s (Received message) =
              send_result (call_handler env
                (logger DEBUG ''Calling %s with %s'' [PStr ''do_unadvertise'', PList args]
                   (logger DEBUG ''Received command %s'' [] s)) Do_unadvertise args))
       \<and> (lower verb = ''discover'' \<longrightarrow>
            check_for_commands env s (Received message) =
              send_result (call_handler env
                (logger DEBUG ''Calling %s with %s'' [PStr ''do_discover'', PList args]
                   (logger DEBUG ''Received command %s'' [] s)) Do_discover args))
       \<and> (lower verb \<notin> {''advertise'', ''unadvertise'', ''discover''} \<longrightarrow>
            check_for_commands env s (Received message) =
              (logger DEBUG ''Received command %s'' [] s, Raised NotImplementedError))"
  using assms by (simp add: check_for_commands_def getattr_do Let_def)

lemma send_result_Returned: "snd called = Returned result \<Longrightarrow> send_result called = (fst called, Returned (Some (pack result)))"
  by (cases called) (simp add: send_result_def)

theorem dispatch_by_lowercased_verb_witness:
  "unpack (pack (PList [PStr ''AdVerTise'', PStr ''web'', PStr ''80'']))
     = Inr (PList [PStr ''AdVerTise'', PStr ''web'', PStr ''80''])
   \<and> lower ''AdVerTise'' = ''advertise''
   \<and> snd (check_for_commands quiet_environment empty_beacon
        (Received (pack (PList [PStr ''AdVerTise'', PStr ''web'', PStr ''80'']))))
       = Returned (Some (pack (PStr ''web!!'')))
   \<and> services_to_advertise (fst (check_for_commands quiet_environment empty_beacon
        (Received (pack (PList [PStr ''AdVerTise'', PStr ''web'', PStr ''80''])))))
       (PStr ''web'') = Some {PStr ''80''}"
proof -
  have u: "unpack (pack (PList [PStr ''AdVerTise'', PStr ''web'', PStr ''80'']))
     = Inr (PList [PStr ''AdVerTise'', PStr ''web'', PStr ''80''])"
    by (simp add: pack_def unpack_def)
  have l: "lower ''AdVerTise'' = ''advertise''" by (simp add: lower_def lower_char_def)
  show ?thesis
    using u l dispatch_by_lowercased_verb[OF u, of quiet_environment empty_beacon]
    by (simp add: send_result_def do_advertise_def logger_def empty_beacon_def Let_def)
qed

section \<open>Properties of discovery\<close>












section \<open>Properties of advertise\<close>

lemma lower_advertise: "lower ''advertise'' = ''advertise''"
  by (simp add: lower_def lower_char_def)

lemma split_address_colon:
  "CHR '':'' \<notin> set ip \<Longrightarrow> split_address (ip @ CHR '':'' # rest) = (Some ip, rest)"
proof -
  assume n: "CHR '':'' \<notin> set ip"
  have t: "takeWhile (\<lambda>c. c \<noteq> CHR '':'') (ip @ CHR '':'' # rest) = ip"
    using n by (induction ip) auto
  have d: "dropWhile (\<lambda>c. c \<noteq> CHR '':'') (ip @ CHR '':'' # rest) = CHR '':'' # rest"
    using n by (induction ip) auto
  show ?thesis by (simp add: split_address_def t d)
qed

lemma split_address_plain:
  "CHR '':'' \<notin> set address \<Longrightarrow> split_address address = (None, address)"
  by (simp add: split_address_def)

lemma rpc_advertise:
  assumes "server w = Some b" "ip = PNone \<or> ip = PStr i"
  shows "rpc env w ''advertise'' [PStr name, PStr port, ip] =
     (w\<lparr>server := Some (fst (do_advertise
          (logger DEBUG ''Calling %s with %s'' [PStr ''do_advertise'', PList [PStr name, PStr port, ip]]
             (logger DEBUG ''Received command %s'' [] b)) (PStr name) (PStr port) ip))\<rparr>,
      Returned (PStr (name @ ''!!'')))"
  using assms
  by (auto simp add: rpc_def check_for_commands_def pack_def unpack_def lower_advertise
        getattr_beacon_def send_result_def do_advertise_def logger_def Let_def)

text \<open>
  C9: \<^verbatim>\<open>advertise(name, address)\<close> takes as port the text of \<^verbatim>\<open>str(address)\<close> after its first
  colon, or all of it when it has no colon, and hands it to the beacon as it is: whatever the
  address, the bucket of the name then holds the port as a text, and the frame broadcast for
  it carries the port as a JSON string. Nothing converts it to a number or checks a range.
\<close>

theorem advertise_port_is_text:
  assumes "server (start_beacon bind_failure w) = Some b"
  shows "(\<forall>ip rest. str address = ip @ CHR '':'' # rest \<and> CHR '':'' \<notin> set ip
            \<longrightarrow> snd (split_address (str address)) = rest)
    \<and> (CHR '':'' \<notin> set (str address) \<longrightarrow> snd (split_address (str address)) = str address)
    \<and> snd (advertise env bind_failure str w (PStr name) address) = Returned (PStr (name @ ''!!''))
    \<and> (\<exists>b' ports.
          server (fst (advertise env bind_failure str w (PStr name) address)) = Some b'
          \<and> services_to_advertise b' (PStr name) = Some ports
          \<and> PStr (snd (split_address (str address))) \<in> ports
          \<and> pack (PList [PStr name, PStr (snd (split_address (str address)))])
               \<in> advertise_names b')
    \<and> pack (PList [PStr name, PStr (snd (split_address (str address)))])
         = Json (JArray [JString name, JString (snd (split_address (str address)))])"
proof -
  let ?port = "snd (split_address (str address))"
  let ?ip = "case fst (split_address (str address)) of None \<Rightarrow> PNone | Some i \<Rightarrow> PStr i"
  let ?b = "fst (do_advertise
          (logger DEBUG ''Calling %s with %s''
             [PStr ''do_advertise'', PList [PStr name, PStr ?port, ?ip]]
             (logger DEBUG ''Received command %s'' [] b)) (PStr name) (PStr ?port) ?ip)"
  have ip: "?ip = PNone \<or> ?ip = PStr (the (fst (split_address (str address))))"
    by (cases "fst (split_address (str address))") simp_all
  have r: "rpc env (start_beacon bind_failure w) ''advertise'' [PStr name, PStr ?port, ?ip]
      = ((start_beacon bind_failure w)\<lparr>server := Some ?b\<rparr>, Returned (PStr (name @ ''!!'')))"
    using rpc_advertise[OF assms ip] .
  have adv: "advertise env bind_failure str w (PStr name) address
      = ((start_beacon bind_failure w)\<lparr>server := Some ?b,
            exit_hooks := exit_hooks (start_beacon bind_failure w) @ [[PStr name, PStr ?port, ?ip]]\<rparr>,
         Returned (PStr (name @ ''!!'')))"
    using r by (simp add: advertise_def Let_def)
  have tab: "services_to_advertise ?b (PStr name)
      = Some (insert (PStr ?port) (case services_to_advertise b (PStr name) of
                                      None \<Rightarrow> {} | Some ports \<Rightarrow> ports))"
    by (simp add: do_advertise_def logger_def Let_def)
  have frame: "pack (PList [PStr name, PStr ?port]) \<in> advertise_names ?b"
    unfolding advertise_names_def using tab by blast
  have a: "\<forall>ip rest. str address = ip @ CHR '':'' # rest \<and> CHR '':'' \<notin> set ip
            \<longrightarrow> ?port = rest"
    by (auto simp: split_address_colon)
  have b: "CHR '':'' \<notin> set (str address) \<longrightarrow> ?port = str address"
    by (simp add: split_address_plain)
  have c: "pack (PList [PStr name, PStr ?port]) = Json (JArray [JString name, JString ?port])"
    by (simp add: pack_def)
  have d: "\<exists>b' ports.
          server (fst (advertise env bind_failure str w (PStr name) address)) = Some b'
          \<and> services_to_advertise b' (PStr name) = Some ports
          \<and> PStr ?port \<in> ports
          \<and> pack (PList [PStr name, PStr ?port]) \<in> advertise_names b'"
    using adv tab frame by auto
  show ?thesis using a b c d adv by simp
qed

theorem advertise_port_is_text_witness:
  "server (start_beacon None fresh_world) = Some empty_beacon
   \<and> snd (split_address (id ''127.0.0.1:99999'')) = ''99999''
   \<and> snd (advertise quiet_environment None id fresh_world (PStr ''svc'') ''127.0.0.1:99999'')
       = Returned (PStr ''svc!!'')
   \<and> pack (PList [PStr ''svc'', PStr ''99999'']) = Json (JArray [JString ''svc'', JString ''99999''])
   \<and> snd (split_address (id ''http'')) = ''http''
   \<and> map_option (\<lambda>b. services_to_advertise b (PStr ''svc''))
         (server (fst (advertise quiet_environment None id fresh_world (PStr ''svc'')
                         ''127.0.0.1:99999'')))
       = Some (Some {PStr ''99999''})"
proof -
  have t: "map_option (\<lambda>b. services_to_advertise b (PStr ''svc''))
         (server (fst (advertise quiet_environment None id fresh_world (PStr ''svc'')
                         ''127.0.0.1:99999'')))
       = Some (Some {PStr ''99999''})"
    by (simp add: advertise_def rpc_def check_for_commands_def pack_def unpack_def
          lower_advertise getattr_beacon_def send_result_def do_advertise_def logger_def
          start_beacon_def fresh_world_def Beacon_init_def split_address_def Let_def)
  have s: "server (start_beacon None fresh_world) = Some empty_beacon"
    by (simp add: start_beacon_def fresh_world_def Beacon_init_def empty_beacon_def Let_def)
  have p: "snd (split_address (id ''127.0.0.1:99999'')) = ''99999''"
    by (simp add: split_address_def)
  show ?thesis
    using s p t
      advertise_port_is_text[OF s, where str = id and address = "''127.0.0.1:99999''"
        and env = quiet_environment and name = "''svc''"]
      advertise_port_is_text[OF s, where str = id and address = "''http''"
        and env = quiet_environment and name = "''svc''"]
    by simp
qed

end
